theory Spec2Isabelle
  imports Complex_Main "HOL-Library.AList"
begin

section \<open>Python values, dictionaries and exceptions\<close>

text \<open>
  The values that flow through \<^verbatim>\<open>iexfinance/stock.py\<close>: parsed JSON (None, booleans,
  numbers, strings, lists, dicts) and the objects of the tabular library. A dict is an
  association list in insertion order; a parsed JSON object has pairwise distinct keys.
  \<open>PFrame x\<close> stands for the object \<^verbatim>\<open>pd.DataFrame(x)\<close>.
\<close>

datatype pyval =
    PNone
  | PBool bool
  | PInt int
  | PFloat rat
  | PStr string
  | PList "pyval list"
  | PDict "(string \<times> pyval) list"
  | PFrame pyval

datatype error =
    TypeError string
  | ValueError string
  | KeyError string
  | IndexError string
  | UnboundLocalError string
  | IEXSymbolError string
  | IEXEndpointError string
  | IEXQueryError string

type_synonym pydict = "(string \<times> pyval) list"

text \<open>The consolidated data set: symbol to (endpoint name to JSON value).\<close>

type_synonym dataset = "(string \<times> pydict) list"

text \<open>\<^verbatim>\<open>sep.join(xs)\<close>\<close>

fun join :: "string \<Rightarrow> string list \<Rightarrow> string" where
  "join sep [] = []"
| "join sep [x] = x"
| "join sep (x # y # ys) = x @ sep @ join sep (y # ys)"

text \<open>
  \<^verbatim>\<open>str.upper\<close> on ASCII text: the letters a to z move to A to Z, every other
  character stays. Ticker symbols are ASCII.
\<close>

definition upper_char :: "char \<Rightarrow> char" where
  "upper_char c =
     (let n = (of_char c :: nat)
      in if 97 \<le> n \<and> n \<le> 122 then char_of (n - 32) else c)"

definition upper :: "string \<Rightarrow> string" where
  "upper s = map upper_char s"

section \<open>StockReader\<close>

record reader =
  symbols :: "string list"
  key :: string
  output_format :: string
  displayPercent :: pyval
  range_opt :: string
  last_opt :: int
  endpoints :: string
  data_set :: dataset

definition RANGE_VALUES :: "string list" where
  "RANGE_VALUES = [''1m'', ''5y'', ''2y'', ''1y'', ''ytd'', ''6m'', ''3m'', ''1d'']"

definition ENDPOINTS :: "string list" where
  "ENDPOINTS = [''chart'', ''quote'', ''book'', ''open-close'', ''previous'',
                ''company'', ''stats'', ''peers'', ''relevant'', ''news'',
                ''financials'', ''earnings'', ''dividends'', ''splits'', ''logo'',
                ''price'', ''delayed-quote'', ''effective-spread'',
                ''volume-by-venue'', ''ohlc'']"

definition ALL_ENDPOINTS_STR_1 :: string where
  "ALL_ENDPOINTS_STR_1 = join '','' (take 10 ENDPOINTS)"

definition ALL_ENDPOINTS_STR_2 :: string where
  "ALL_ENDPOINTS_STR_2 = join '','' (drop 10 (take 20 ENDPOINTS))"

text \<open>\<^verbatim>\<open>_default_options\<close>\<close>

definition default_options :: "reader \<Rightarrow> bool" where
  "default_options r \<longleftrightarrow>
     range_opt r = ''1m'' \<and> last_opt r = 10 \<and> displayPercent r = PBool False"

definition url :: "reader \<Rightarrow> string" where
  "url r = ''stock/market/batch''"

text \<open>The \<^verbatim>\<open>params\<close> property: the query parameters of one request, in insertion order.\<close>

definition params :: "reader \<Rightarrow> pydict" where
  "params r =
     (let p = [(''symbols'', PStr (join '','' (symbols r))),
               (''types'', PStr (endpoints r))]
      in if \<not> default_options r
         then AList.update ''displayPercent'' (displayPercent r)
                (AList.update ''last'' (PInt (last_opt r))
                  (AList.update ''range'' (PStr (range_opt r)) p))
         else p)"

subsection \<open>Dictionary operations\<close>

text \<open>\<^verbatim>\<open>d[k]\<close> on a dict.\<close>

definition getitem :: "(string \<times> 'v) list \<Rightarrow> string \<Rightarrow> error + 'v" where
  "getitem d k = (case map_of d k of None \<Rightarrow> Inl (KeyError k) | Some v \<Rightarrow> Inr v)"

text \<open>\<^verbatim>\<open>d.update(other)\<close>: the entries of \<open>other\<close> are stored into \<open>d\<close> one by one.\<close>

definition dict_update :: "pydict \<Rightarrow> pydict \<Rightarrow> pydict" where
  "dict_update d other = fold (\<lambda>(k, v) acc. AList.update k v acc) other d"

subsection \<open>refresh\<close>

text \<open>
  \<^verbatim>\<open>fetch\<close> belongs to the base class and the transport, outside this file: it is a
  parameter that maps the url and the request parameters to the parsed response or to
  the error it raises.
\<close>

type_synonym fetcher = "string \<Rightarrow> pydict \<Rightarrow> error + dataset"

text \<open>
  The loop of \<^verbatim>\<open>refresh\<close> over \<^verbatim>\<open>self.symbols\<close>. It returns the exception raised, if
  any, and the data set as the loop left it.
\<close>

fun refresh_loop :: "string list \<Rightarrow> dataset \<Rightarrow> dataset \<Rightarrow> error option \<times> dataset" where
  "refresh_loop [] ds data2 = (None, ds)"
| "refresh_loop (symbol # rest) ds data2 =
     (case map_of ds symbol of
        None \<Rightarrow> (Some (IEXSymbolError symbol), ds)
      | Some d \<Rightarrow>
          (case map_of data2 symbol of
             None \<Rightarrow> (Some (KeyError symbol), ds)
           | Some d2 \<Rightarrow>
               refresh_loop rest (AList.update symbol (dict_update d d2) ds) data2))"

definition refresh :: "fetcher \<Rightarrow> reader \<Rightarrow> error option \<times> reader" where
  "refresh fetch r =
     (let r1 = r\<lparr>endpoints := ALL_ENDPOINTS_STR_1\<rparr> in
      case fetch (url r1) (params r1) of
        Inl e \<Rightarrow> (Some e, r1)
      | Inr ds \<Rightarrow>
          (let r2 = r1\<lparr>data_set := ds, endpoints := ALL_ENDPOINTS_STR_2\<rparr> in
           case fetch (url r2) (params r2) of
             Inl e \<Rightarrow> (Some e, r2)
           | Inr data2 \<Rightarrow>
               (case refresh_loop (symbols r2) ds data2 of
                  (err, ds') \<Rightarrow> (err, r2\<lparr>data_set := ds'\<rparr>))))"

subsection \<open>Construction\<close>

text \<open>The \<^verbatim>\<open>symbols\<close> argument: absent (the default None), a string, or a list of strings.\<close>

datatype symbols_arg = NoSymbols | SymbolStr string | SymbolList "string list"

text \<open>
  What iterating over the argument visits, and what \<^verbatim>\<open>len\<close> counts: the elements of
  a list, the characters of a string.
\<close>

definition elements :: "symbols_arg \<Rightarrow> string list" where
  "elements syms =
     (case syms of
        NoSymbols \<Rightarrow> []
      | SymbolStr s \<Rightarrow> map (\<lambda>c. [c]) s
      | SymbolList xs \<Rightarrow> xs)"

text \<open>
  \<^verbatim>\<open>StockReader.__init__\<close>. The initialiser of the base class is outside this file and
  receives only the keyword arguments of the transport. Before \<^verbatim>\<open>refresh\<close> runs, the
  attributes \<^verbatim>\<open>endpoints\<close> and \<^verbatim>\<open>data_set\<close> do not exist; the record holds empty
  values there.
\<close>

definition StockReader_init ::
  "fetcher \<Rightarrow> symbols_arg \<Rightarrow> pyval \<Rightarrow> string \<Rightarrow> int \<Rightarrow> string \<Rightarrow> error + reader" where
  "StockReader_init fetch syms dp rng lst fmt =
     (if syms = NoSymbols then Inl (TypeError ''object is not iterable'')
      else
        (let r = \<lparr>symbols = map upper (elements syms),
                  key = (if length (elements syms) = 1 then ''share'' else ''batch''),
                  output_format = fmt,
                  displayPercent = dp,
                  range_opt = rng,
                  last_opt = lst,
                  endpoints = [],
                  data_set = []\<rparr>
         in if (case dp of PBool b \<Rightarrow> False | _ \<Rightarrow> True)
            then Inl (TypeError ''displayPercent must be a boolean value'')
            else if rng \<notin> set RANGE_VALUES
            then Inl (ValueError ''Invalid chart range.'')
            else if lst > 50 \<or> lst < 1
            then Inl (ValueError ''Invalid news last range. Enter a value between 1 and 50.'')
            else (case refresh fetch r of
                    (Some e, r') \<Rightarrow> Inl e
                  | (None, r') \<Rightarrow> Inr r')))"

subsection \<open>Methods as state transformers\<close>

text \<open>
  What a call does besides raising or returning: the messages it hands to
  \<^verbatim>\<open>warnings.warn\<close>, in order, followed by the exception or the value. Whether the
  interpreter displays a message is decided by its warning filters, outside this file.
\<close>

type_synonym 'a outcome = "string list \<times> (error + 'a)"

text \<open>
  A method runs on the instance \<^verbatim>\<open>self\<close> and gives its outcome together with the
  instance as it leaves it: any statement of a method may assign to an attribute.
\<close>

type_synonym 'a proc = "reader \<Rightarrow> 'a outcome \<times> reader"

text \<open>Returning a value, and a computation that touches no attribute.\<close>

definition ret :: "'a \<Rightarrow> 'a proc" where
  "ret v = (\<lambda>self. (([], Inr v), self))"

definition lift :: "error + 'a \<Rightarrow> 'a proc" where
  "lift x = (\<lambda>self. (([], x), self))"

text \<open>Reading an attribute, \<^verbatim>\<open>self.name\<close>.\<close>

definition attr :: "(reader \<Rightarrow> 'a) \<Rightarrow> 'a proc" where
  "attr name = (\<lambda>self. (([], Inr (name self)), self))"

text \<open>\<^verbatim>\<open>warnings.warn(msg)\<close>\<close>

definition warn :: "string \<Rightarrow> unit proc" where
  "warn msg = (\<lambda>self. (([msg], Inr ()), self))"

text \<open>
  Sequencing: the second step runs on the instance the first one left, unless the first
  one raised.
\<close>

definition and_then :: "'a proc \<Rightarrow> ('a \<Rightarrow> 'b proc) \<Rightarrow> 'b proc" where
  "and_then m f =
     (\<lambda>self. case m self of
        ((w, Inl e), self1) \<Rightarrow> ((w, Inl e), self1)
      | ((w, Inr v), self1) \<Rightarrow>
          (case f v self1 of ((w', x), self2) \<Rightarrow> ((w @ w', x), self2)))"

subsection \<open>The output-format decorator\<close>

text \<open>
  The tabular library is outside the repository: building a frame from a response
  (\<^verbatim>\<open>pd.DataFrame(response)\<close>) and subscripting one of its objects are parameters.
\<close>

record pandas =
  DataFrame :: "pyval \<Rightarrow> error + pyval"
  frame_getitem :: "pyval \<Rightarrow> string \<Rightarrow> error + pyval"

text \<open>\<^verbatim>\<open>v[k]\<close> for a string \<open>k\<close>.\<close>

definition subscript :: "pandas \<Rightarrow> pyval \<Rightarrow> string \<Rightarrow> error + pyval" where
  "subscript pd v k =
     (case v of
        PDict d \<Rightarrow> getitem d k
      | PFrame x \<Rightarrow> frame_getitem pd v k
      | PList xs \<Rightarrow> Inl (TypeError ''list indices must be integers or slices, not str'')
      | PStr s \<Rightarrow> Inl (TypeError ''string indices must be integers'')
      | _ \<Rightarrow> Inl (TypeError ''object is not subscriptable''))"

definition pandas_warning :: string where
  "pandas_warning = ''Pandas output not supported for this endpoint. Defaulting to JSON.''"

text \<open>
  \<^verbatim>\<open>_format_wrapper\<close> around the decorated function \<open>func\<close>: the function runs
  first, the attributes are read afterwards. The comparisons \<^verbatim>\<open>is 'pandas'\<close> and
  \<^verbatim>\<open>is 'share'\<close> are read as equality of strings. The branch that warns has no
  return statement, so the call returns None.
\<close>

definition format_wrapper :: "pandas \<Rightarrow> string option \<Rightarrow> pyval proc \<Rightarrow> pyval proc" where
  "format_wrapper pd override func =
     and_then func (\<lambda>response.
       and_then (attr output_format) (\<lambda>fmt.
         if fmt = ''pandas'' then
           (case override of
              None \<Rightarrow> lift (DataFrame pd response)
            | Some ovr \<Rightarrow> and_then (warn pandas_warning) (\<lambda>u. ret PNone))
         else
           and_then (attr key) (\<lambda>k.
             if k = ''share'' then
               and_then (attr symbols) (\<lambda>syms.
                 case syms of
                   [] \<Rightarrow> lift (Inl (IndexError ''list index out of range''))
                 | s # rest \<Rightarrow> lift (subscript pd response s))
             else ret response)))"

subsection \<open>Accessors\<close>

text \<open>
  A dict comprehension \<^verbatim>\<open>{k: f(k) for k in ks}\<close>, as the loop that stores one entry
  after the other into the dict under construction; each element expression runs on the
  instance the one before it left.
\<close>

fun dict_comp :: "(string \<Rightarrow> pyval proc) \<Rightarrow> string list \<Rightarrow> pydict \<Rightarrow> pydict proc" where
  "dict_comp f [] acc self = (([], Inr acc), self)"
| "dict_comp f (k # ks) acc self =
     (case f k self of
        ((w, Inl e), self1) \<Rightarrow> ((w, Inl e), self1)
      | ((w, Inr v), self1) \<Rightarrow>
          (case dict_comp f ks (AList.update k v acc) self1 of
             ((w', x), self2) \<Rightarrow> ((w @ w', x), self2)))"

text \<open>The data set as a Python value.\<close>

definition dataset_val :: "dataset \<Rightarrow> pyval" where
  "dataset_val ds = PDict (map (\<lambda>(s, d). (s, PDict d)) ds)"

text \<open>
  The body shared by the endpoint methods:
  \<^verbatim>\<open>{symbol: self.data_set[symbol][name] for symbol in self.data_set.keys()}\<close>
\<close>

definition endpoint_func :: "string \<Rightarrow> pyval proc" where
  "endpoint_func name =
     and_then (attr data_set) (\<lambda>ds.
       and_then
         (dict_comp
            (\<lambda>symbol. and_then (attr data_set) (\<lambda>ds'.
               lift (case getitem ds' symbol of
                       Inl e \<Rightarrow> Inl e
                     | Inr d \<Rightarrow> getitem d name)))
            (map fst ds) [])
         (\<lambda>d. ret (PDict d)))"

definition get_quote :: "pandas \<Rightarrow> pyval proc" where
  "get_quote pd = format_wrapper pd None (endpoint_func ''quote'')"

definition get_key_stats :: "pandas \<Rightarrow> pyval proc" where
  "get_key_stats pd = format_wrapper pd None (endpoint_func ''stats'')"

definition get_ohlc :: "pandas \<Rightarrow> pyval proc" where
  "get_ohlc pd = format_wrapper pd None (endpoint_func ''ohlc'')"

definition get_chart :: "pandas \<Rightarrow> pyval proc" where
  "get_chart pd = format_wrapper pd (Some ''json'') (endpoint_func ''chart'')"

text \<open>
  The body shared by the field methods, with \<open>getter\<close> one of \<^verbatim>\<open>get_quote\<close> and
  \<^verbatim>\<open>get_key_stats\<close>:
  \<^verbatim>\<open>{symbol: getter()[symbol][field] if self.key == 'batch' else getter()[field]
    for symbol in self.data_set.keys()}\<close>
\<close>

definition field_func :: "pandas \<Rightarrow> (pandas \<Rightarrow> pyval proc) \<Rightarrow> string \<Rightarrow> pyval proc" where
  "field_func pd getter field =
     and_then (attr data_set) (\<lambda>ds.
       and_then
         (dict_comp
            (\<lambda>symbol. and_then (attr key) (\<lambda>k.
               if k = ''batch''
               then and_then (getter pd)
                      (\<lambda>q. lift (case subscript pd q symbol of
                                   Inl e \<Rightarrow> Inl e
                                 | Inr qs \<Rightarrow> subscript pd qs field))
               else and_then (getter pd) (\<lambda>q. lift (subscript pd q field))))
            (map fst ds) [])
         (\<lambda>d. ret (PDict d)))"

text \<open>The \<^verbatim>\<open>endpoints\<close> argument of \<^verbatim>\<open>get_select_endpoints\<close>: a string or a list.\<close>

datatype endpoints_arg = EndpointStr string | EndpointList "string list"

text \<open>
  The inner loop of \<^verbatim>\<open>get_select_endpoints\<close>. The local variable \<^verbatim>\<open>ds\<close> is unbound
  (\<open>None\<close> here) until a lookup of a symbol has succeeded.
\<close>

fun select_endpoint_loop :: "string list \<Rightarrow> pydict option \<Rightarrow> pydict \<Rightarrow> error + pydict" where
  "select_endpoint_loop [] ds temp = Inr temp"
| "select_endpoint_loop (endpoint # rest) ds temp =
     (case ds of
        None \<Rightarrow> Inl (UnboundLocalError ''ds'')
      | Some d \<Rightarrow>
          (case map_of d endpoint of
             None \<Rightarrow> Inl (IEXEndpointError endpoint)
           | Some query \<Rightarrow> select_endpoint_loop rest ds (AList.update endpoint query temp)))"

text \<open>
  The outer loop. When the lookup of the symbol raises KeyError the handler builds an
  \<^verbatim>\<open>IEXSymbolError\<close> without raising it, and \<^verbatim>\<open>ds\<close> keeps what it held before.
\<close>

fun select_symbol_loop ::
  "string list \<Rightarrow> dataset \<Rightarrow> string list \<Rightarrow> pydict option \<Rightarrow> pydict \<Rightarrow> error + pydict" where
  "select_symbol_loop [] data eps ds result = Inr result"
| "select_symbol_loop (symbol # rest) data eps ds result =
     (let ds' = (case map_of data symbol of None \<Rightarrow> ds | Some d \<Rightarrow> Some d)
      in case select_endpoint_loop eps ds' [] of
           Inl e \<Rightarrow> Inl e
         | Inr temp \<Rightarrow>
             select_symbol_loop rest data eps ds' (AList.update symbol (PDict temp) result))"

definition get_select_endpoints_func :: "endpoints_arg \<Rightarrow> pyval proc" where
  "get_select_endpoints_func arg =
     (case arg of
        EndpointList [] \<Rightarrow> lift (Inl (ValueError ''Please provide a valid list of endpoints''))
      | _ \<Rightarrow>
        and_then (attr symbols) (\<lambda>syms.
          and_then (attr data_set) (\<lambda>data.
            lift (case select_symbol_loop syms data
                         (case arg of EndpointStr e \<Rightarrow> [e] | EndpointList es \<Rightarrow> es) None [] of
                    Inl e \<Rightarrow> Inl e
                  | Inr result \<Rightarrow> Inr (PDict result)))))"

text \<open>The public read operations of a StockReader.\<close>

datatype accessor =
    Get_all | Get_select_endpoints endpoints_arg
  | Get_quote | Get_book | Get_chart | Get_open_close | Get_previous | Get_company
  | Get_key_stats | Get_peers | Get_relevant | Get_news | Get_financials | Get_earnings
  | Get_dividends | Get_splits | Get_logo | Get_price | Get_delayed_quote
  | Get_effective_spread | Get_volume_by_venue | Get_ohlc | Get_time_series
  | Get_company_name | Get_primary_exchange | Get_sector | Get_open | Get_close
  | Get_years_high | Get_years_low | Get_ytd_change | Get_volume | Get_market_cap
  | Get_beta | Get_short_interest | Get_short_ratio | Get_latest_eps
  | Get_shares_outstanding | Get_float | Get_eps_consensus

text \<open>The body of each method, before decoration.\<close>

fun func :: "pandas \<Rightarrow> accessor \<Rightarrow> pyval proc" where
  "func pd Get_all = and_then (attr data_set) (\<lambda>ds. ret (dataset_val ds))"
| "func pd (Get_select_endpoints arg) = get_select_endpoints_func arg"
| "func pd Get_quote = endpoint_func ''quote''"
| "func pd Get_book = endpoint_func ''book''"
| "func pd Get_chart = endpoint_func ''chart''"
| "func pd Get_open_close = get_ohlc pd"
| "func pd Get_previous = endpoint_func ''previous''"
| "func pd Get_company = endpoint_func ''company''"
| "func pd Get_key_stats = endpoint_func ''stats''"
| "func pd Get_peers = endpoint_func ''peers''"
| "func pd Get_relevant = endpoint_func ''relevant''"
| "func pd Get_news = endpoint_func ''news''"
| "func pd Get_financials = endpoint_func ''financials''"
| "func pd Get_earnings = endpoint_func ''earnings''"
| "func pd Get_dividends = endpoint_func ''dividends''"
| "func pd Get_splits = endpoint_func ''splits''"
| "func pd Get_logo = endpoint_func ''logo''"
| "func pd Get_price = endpoint_func ''price''"
| "func pd Get_delayed_quote = endpoint_func ''delayed-quote''"
| "func pd Get_effective_spread = endpoint_func ''effective-spread''"
| "func pd Get_volume_by_venue = endpoint_func ''volume-by-venue''"
| "func pd Get_ohlc = endpoint_func ''ohlc''"
| "func pd Get_time_series = get_chart pd"
| "func pd Get_company_name = field_func pd get_quote ''companyName''"
| "func pd Get_primary_exchange = field_func pd get_quote ''primaryExchange''"
| "func pd Get_sector = field_func pd get_quote ''sector''"
| "func pd Get_open = field_func pd get_quote ''open''"
| "func pd Get_close = field_func pd get_quote ''close''"
| "func pd Get_years_high = field_func pd get_quote ''week52High''"
| "func pd Get_years_low = field_func pd get_quote ''week52Low''"
| "func pd Get_ytd_change = field_func pd get_quote ''ytdChange''"
| "func pd Get_volume = field_func pd get_quote ''latestVolume''"
| "func pd Get_market_cap = field_func pd get_quote ''marketCap''"
| "func pd Get_beta = field_func pd get_key_stats ''beta''"
| "func pd Get_short_interest = field_func pd get_key_stats ''shortInterest''"
| "func pd Get_short_ratio = field_func pd get_key_stats ''shortRatio''"
| "func pd Get_latest_eps = field_func pd get_key_stats ''latestEPS''"
| "func pd Get_shares_outstanding = field_func pd get_key_stats ''sharesOutstanding''"
| "func pd Get_float = field_func pd get_key_stats ''float''"
| "func pd Get_eps_consensus = field_func pd get_key_stats ''consensusEPS''"

text \<open>
  The decoration of each method: \<open>None\<close> for the two undecorated aliases, otherwise the
  \<^verbatim>\<open>override\<close> argument of \<^verbatim>\<open>output_format\<close>.
\<close>

definition decorator :: "accessor \<Rightarrow> string option option" where
  "decorator a =
     (if a \<in> {Get_open_close, Get_time_series} then None
      else if a \<in> {Get_quote, Get_book, Get_previous, Get_company, Get_key_stats, Get_peers,
                    Get_relevant, Get_news, Get_financials, Get_earnings, Get_dividends,
                    Get_splits, Get_logo, Get_delayed_quote, Get_effective_spread,
                    Get_volume_by_venue, Get_ohlc}
      then Some None
      else Some (Some ''json''))"

text \<open>
  A call of a method on an instance: the outcome and the instance afterwards. The two
  aliases are plain methods, every other method is its body under the decorator.
\<close>

definition call :: "pandas \<Rightarrow> accessor \<Rightarrow> pyval proc" where
  "call pd a =
     (case decorator a of
        None \<Rightarrow> func pd a
      | Some override \<Rightarrow> format_wrapper pd override (func pd a))"



section \<open>HistoricalReader\<close>

record datetime =
  year :: int
  month :: int
  day :: int

record hist_reader =
  h_type :: string
  h_symlist :: "pyval list"
  h_symbols :: pyval
  h_start :: datetime
  h_end :: datetime
  h_output_format :: string

text \<open>
  \<^verbatim>\<open>HistoricalReader.__init__\<close>, up to the call of the base initialiser (which is
  outside this file and receives only the keyword arguments of the transport).
\<close>

definition HistoricalReader_init ::
  "pyval \<Rightarrow> datetime \<Rightarrow> datetime \<Rightarrow> string \<Rightarrow> error + hist_reader" where
  "HistoricalReader_init syms start end_date fmt =
     (case syms of
        PList xs \<Rightarrow>
          if length xs > 1
          then Inr \<lparr>h_type = ''Batch'', h_symlist = xs, h_symbols = syms,
                    h_start = start, h_end = end_date, h_output_format = fmt\<rparr>
          else Inl (ValueError ''Please input a symbol or list of symbols'')
      | PStr s \<Rightarrow>
          Inr \<lparr>h_type = ''Share'', h_symlist = [syms], h_symbols = syms,
                h_start = start, h_end = end_date, h_output_format = fmt\<rparr>
      | _ \<Rightarrow> Inl (ValueError ''Please input a symbol or list of symbols''))"

text \<open>
  The \<^verbatim>\<open>chart_range\<close> property; \<open>now_year\<close> is \<^verbatim>\<open>datetime.datetime.now().year\<close>.
\<close>

definition chart_range :: "int \<Rightarrow> hist_reader \<Rightarrow> error + string" where
  "chart_range now_year h =
     (let delta = now_year - year (h_start h)
      in if 2 \<le> delta \<and> delta \<le> 5 then Inr ''5y''
         else if 1 \<le> delta \<and> delta \<le> 2 then Inr ''2y''
         else if 0 \<le> delta \<and> delta < 1 then Inr ''1y''
         else Inl (ValueError ''Invalid date specified. Must be within past 5 years.''))"

section \<open>Example instances\<close>

text \<open>
  A transport that answers the request for the first endpoint group with \<open>d1\<close> and any
  other request with \<open>d2\<close>.
\<close>

definition two_group_fetch :: "dataset \<Rightarrow> dataset \<Rightarrow> fetcher" where
  "two_group_fetch d1 d2 =
     (\<lambda>u p. if map_of p ''types'' = Some (PStr ALL_ENDPOINTS_STR_1) then Inr d1 else Inr d2)"

text \<open>An instance with default options, before any data has been fetched.\<close>

definition blank_reader :: "string list \<Rightarrow> string \<Rightarrow> string \<Rightarrow> reader" where
  "blank_reader syms k fmt =
     \<lparr>symbols = syms, key = k, output_format = fmt, displayPercent = PBool False,
      range_opt = ''1m'', last_opt = 10, endpoints = [], data_set = []\<rparr>"

text \<open>A tabular library whose frames accept every response and have no columns.\<close>

definition plain_pandas :: pandas where
  "plain_pandas = \<lparr>DataFrame = (\<lambda>x. Inr (PFrame x)), frame_getitem = (\<lambda>x k. Inl (KeyError k))\<rparr>"



section \<open>Properties\<close>

subsection \<open>Dictionaries and the refresh loop\<close>

lemma map_of_dict_update: "map_of (dict_update d other) = map_of d ++ map_of (rev other)"
  unfolding dict_update_def
proof (induction other arbitrary: d)
  case Nil then show ?case by simp
next
  case (Cons p ps)
  obtain k v where p: "p = (k, v)" by (cases p)
  show ?case
  proof -
    have "map_of (fold (\<lambda>(k, v). AList.update k v) ps (AList.update k v d)) x =
          (map_of d ++ map_of (rev ps @ [(k, v)])) x" for x
      by (simp add: Cons.IH update_conv' map_add_def split: option.splits)
    then show ?thesis by (simp add: p fun_eq_iff)
  qed
qed

lemma map_of_rev_distinct:
  assumes "distinct (map fst xs)"
  shows "map_of (rev xs) = map_of xs"
proof (rule ext)
  fix k
  have d: "distinct (map fst (rev xs))"
    using assms by (simp add: rev_map [symmetric])
  have "map_of (rev xs) k = Some v \<longleftrightarrow> map_of xs k = Some v" for v
    using map_of_eq_Some_iff [OF d] map_of_eq_Some_iff [OF assms] by simp
  then show "map_of (rev xs) k = map_of xs k"
    by (metis not_Some_eq)
qed



lemma map_add_twice: "m ++ n ++ n = m ++ n"
  by (rule ext) (simp add: map_add_def split: option.splits)

lemma refresh_loop_error:
  assumes "\<forall>s\<in>set syms. map_of ds s \<noteq> None \<longrightarrow> map_of d2 s \<noteq> None"
  shows "fst (refresh_loop syms ds d2) =
           map_option IEXSymbolError (find (\<lambda>s. map_of ds s = None) syms)"
  using assms
proof (induction syms arbitrary: ds)
  case Nil then show ?case by simp
next
  case (Cons s ss)
  show ?case
  proof (cases "map_of ds s")
    case None then show ?thesis by simp
  next
    case (Some a)
    with Cons.prems obtain b where b: "map_of d2 s = Some b" by auto
    let ?ds = "AList.update s (dict_update a b) ds"
    have dom: "\<And>x. (map_of ?ds x = None) = (map_of ds x = None)"
      using Some by (simp add: update_conv')
    have "fst (refresh_loop ss ?ds d2) =
            map_option IEXSymbolError (find (\<lambda>s. map_of ?ds s = None) ss)"
      by (rule Cons.IH) (use Cons.prems dom in auto)
    then show ?thesis using Some b by (simp add: dom)
  qed
qed

lemma refresh_loop_success:
  "refresh_loop syms ds d2 = (None, ds') \<Longrightarrow>
   (\<forall>s. if s \<in> set syms
        then (\<exists>m a b. map_of ds' s = Some m \<and> map_of ds s = Some a \<and> map_of d2 s = Some b
               \<and> map_of m = map_of a ++ map_of (rev b))
        else map_of ds' s = map_of ds s)"
proof (induction syms arbitrary: ds)
  case Nil then show ?case by simp
next
  case (Cons s ss)
  from Cons.prems obtain a where a: "map_of ds s = Some a"
    by (cases "map_of ds s") auto
  from Cons.prems a obtain b where b: "map_of d2 s = Some b"
    by (cases "map_of d2 s") auto
  let ?ds = "AList.update s (dict_update a b) ds"
  from Cons.prems a b have run: "refresh_loop ss ?ds d2 = (None, ds')" by simp
  note IH = Cons.IH[OF run]
  show ?case
  proof
    fix x
    show "if x \<in> set (s # ss)
        then (\<exists>m a b. map_of ds' x = Some m \<and> map_of ds x = Some a \<and> map_of d2 x = Some b
               \<and> map_of m = map_of a ++ map_of (rev b))
        else map_of ds' x = map_of ds x"
    proof (cases "x = s")
      case True
      show ?thesis
      proof (cases "s \<in> set ss")
        case True
        with IH obtain m a' b' where
          "map_of ds' s = Some m" "map_of ?ds s = Some a'" "map_of d2 s = Some b'"
          "map_of m = map_of a' ++ map_of (rev b')"
          by (metis (no_types, lifting))
        then show ?thesis using a b \<open>x = s\<close>
          by (auto simp: update_conv' map_of_dict_update map_add_twice)
      next
        case False
        with IH have "map_of ds' s = map_of ?ds s" by (metis (no_types, lifting))
        then show ?thesis using a b \<open>x = s\<close>
          by (auto simp: update_conv' map_of_dict_update)
      qed
    next
      case False
      then show ?thesis using IH[rule_format, of x]
        by (auto simp: update_conv' split: if_splits)
    qed
  qed
qed


lemma params_data_set:
  "params (r\<lparr>data_set := ds, endpoints := e\<rparr>) = params (r\<lparr>endpoints := e\<rparr>)"
  by (simp add: params_def default_options_def Let_def)

subsection \<open>Claims\<close>

text \<open>
  C2: with delta the current year minus the start year, the lookback bucket is 5y for
  delta in [2,5], 2y for delta in [1,2), 1y for delta in [0,1), and every other delta
  (negative or greater than 5) fails with the invalid-date-range error.
\<close>

theorem chart_range_buckets:
  "chart_range n h =
     (if n - year (h_start h) \<in> {2..5} then Inr ''5y''
      else if n - year (h_start h) \<in> {1..<2} then Inr ''2y''
      else if n - year (h_start h) \<in> {0..<1} then Inr ''1y''
      else Inl (ValueError ''Invalid date specified. Must be within past 5 years.''))
   \<and> ((\<exists>e. chart_range n h = Inl e) \<longleftrightarrow>
        n - year (h_start h) < 0 \<or> 5 < n - year (h_start h))"
  by (auto simp: chart_range_def Let_def)

text \<open>
  C5: a string selects single-symbol mode, a list of more than one element selects batch
  mode, and every other symbols argument, a one-element list included, makes the
  construction fail with the invalid-input error.
\<close>

theorem HistoricalReader_init_modes:
  "HistoricalReader_init (PStr s) a b f =
     Inr \<lparr>h_type = ''Share'', h_symlist = [PStr s], h_symbols = PStr s,
          h_start = a, h_end = b, h_output_format = f\<rparr>
   \<and> (1 < length xs \<longrightarrow>
        HistoricalReader_init (PList xs) a b f =
          Inr \<lparr>h_type = ''Batch'', h_symlist = xs, h_symbols = PList xs,
               h_start = a, h_end = b, h_output_format = f\<rparr>)
   \<and> HistoricalReader_init (PList [x]) a b f =
        Inl (ValueError ''Please input a symbol or list of symbols'')
   \<and> ((\<forall>t. syms \<noteq> PStr t) \<and> (\<forall>ys. syms = PList ys \<longrightarrow> length ys \<le> 1) \<longrightarrow>
        HistoricalReader_init syms a b f =
          Inl (ValueError ''Please input a symbol or list of symbols''))"
  by (cases syms) (auto simp: HistoricalReader_init_def)

theorem HistoricalReader_init_modes_witness:
  "1 < length [PStr ''AAPL'', PStr ''TSLA'']
   \<and> h_type (projr (HistoricalReader_init (PList [PStr ''AAPL'', PStr ''TSLA''])
        \<lparr>year = 2017, month = 2, day = 9\<rparr> \<lparr>year = 2017, month = 5, day = 24\<rparr> ''json''))
       = ''Batch''
   \<and> (\<forall>t. PInt 34 \<noteq> PStr t) \<and> (\<forall>ys. PInt 34 \<noteq> PList ys)
   \<and> HistoricalReader_init (PInt 34)
        \<lparr>year = 2017, month = 2, day = 9\<rparr> \<lparr>year = 2017, month = 5, day = 24\<rparr> ''json''
       = Inl (ValueError ''Please input a symbol or list of symbols'')"
  using HistoricalReader_init_modes
    [of "''AAPL''" "\<lparr>year = 2017, month = 2, day = 9\<rparr>"
        "\<lparr>year = 2017, month = 5, day = 24\<rparr>" "''json''"
        "[PStr ''AAPL'', PStr ''TSLA'']" "PStr ''AAPL''" "PInt 34"]
  by simp

text \<open>
  C7: when range, last and displayPercent all have their default values, the request
  parameters hold the symbols and types keys only; range, last and displayPercent are
  not among the keys.
\<close>

theorem params_default:
  "range_opt r = ''1m'' \<and> last_opt r = 10 \<and> displayPercent r = PBool False \<Longrightarrow>
   params r = [(''symbols'', PStr (join '','' (symbols r))), (''types'', PStr (endpoints r))]
   \<and> map fst (params r) = [''symbols'', ''types'']
   \<and> ''range'' \<notin> fst ` set (params r)
   \<and> ''last'' \<notin> fst ` set (params r)
   \<and> ''displayPercent'' \<notin> fst ` set (params r)"
  by (simp add: params_def default_options_def)

theorem params_default_witness:
  "default_options \<lparr>symbols = [''AAPL'', ''TSLA''], key = ''batch'', output_format = ''json'',
       displayPercent = PBool False, range_opt = ''1m'', last_opt = 10,
       endpoints = ALL_ENDPOINTS_STR_1, data_set = []\<rparr>
   \<and> params \<lparr>symbols = [''AAPL'', ''TSLA''], key = ''batch'', output_format = ''json'',
       displayPercent = PBool False, range_opt = ''1m'', last_opt = 10,
       endpoints = ALL_ENDPOINTS_STR_1, data_set = []\<rparr>
     = [(''symbols'', PStr ''AAPL,TSLA''),
        (''types'', PStr ''chart,quote,book,open-close,previous,company,stats,peers,relevant,news'')]"
  using params_default
    [of "\<lparr>symbols = [''AAPL'', ''TSLA''], key = ''batch'', output_format = ''json'',
         displayPercent = PBool False, range_opt = ''1m'', last_opt = 10,
         endpoints = ALL_ENDPOINTS_STR_1, data_set = []\<rparr>"]
  by (simp add: default_options_def ALL_ENDPOINTS_STR_1_def ENDPOINTS_def)

text \<open>
  C8: when at least one of range, last, displayPercent differs from its default, the
  request parameters carry all three keys, each with the instance's value, the ones still
  at their default included.
\<close>

theorem params_nondefault:
  "range_opt r \<noteq> ''1m'' \<or> last_opt r \<noteq> 10 \<or> displayPercent r \<noteq> PBool False \<Longrightarrow>
   map fst (params r) = [''symbols'', ''types'', ''range'', ''last'', ''displayPercent'']
   \<and> map_of (params r) ''range'' = Some (PStr (range_opt r))
   \<and> map_of (params r) ''last'' = Some (PInt (last_opt r))
   \<and> map_of (params r) ''displayPercent'' = Some (displayPercent r)"
  by (auto simp: params_def default_options_def)

theorem params_nondefault_witness:
  "(37::int) \<noteq> 10
   \<and> params \<lparr>symbols = [''AAPL''], key = ''share'', output_format = ''json'',
       displayPercent = PBool False, range_opt = ''1m'', last_opt = 37,
       endpoints = ALL_ENDPOINTS_STR_2, data_set = []\<rparr>
     = [(''symbols'', PStr ''AAPL''),
        (''types'', PStr (''financials,earnings,dividends,splits,logo,price,'' @
                          ''delayed-quote,effective-spread,volume-by-venue,ohlc'')),
        (''range'', PStr ''1m''), (''last'', PInt 37), (''displayPercent'', PBool False)]"
  using params_nondefault
    [of "\<lparr>symbols = [''AAPL''], key = ''share'', output_format = ''json'',
         displayPercent = PBool False, range_opt = ''1m'', last_opt = 37,
         endpoints = ALL_ENDPOINTS_STR_2, data_set = []\<rparr>"]
  by (simp add: params_def default_options_def ALL_ENDPOINTS_STR_2_def ENDPOINTS_def)

text \<open>
  C3, as amended: when every requested symbol found in the first response group is also
  in the second one, refresh fails with the symbol-not-found error exactly when some
  requested symbol is absent from the first response group, it succeeds exactly when
  none is, and on success the data set maps every requested symbol to the union of its
  endpoint entries from both groups.
\<close>

theorem refresh_consolidates:
  assumes f1: "fetch ''stock/market/batch'' (params (r\<lparr>endpoints := ALL_ENDPOINTS_STR_1\<rparr>)) = Inr d1"
    and f2: "fetch ''stock/market/batch'' (params (r\<lparr>endpoints := ALL_ENDPOINTS_STR_2\<rparr>)) = Inr d2"
    and second: "\<forall>s\<in>set (symbols r). map_of d1 s \<noteq> None \<longrightarrow> map_of d2 s \<noteq> None"
    and wf: "\<forall>(s, b)\<in>set d2. distinct (map fst b)"
  shows "((\<exists>s. fst (refresh fetch r) = Some (IEXSymbolError s)) \<longleftrightarrow>
            (\<exists>s\<in>set (symbols r). map_of d1 s = None))
       \<and> (fst (refresh fetch r) = None \<longleftrightarrow> (\<forall>s\<in>set (symbols r). map_of d1 s \<noteq> None))
       \<and> (fst (refresh fetch r) = None \<longrightarrow>
            (\<forall>s\<in>set (symbols r). \<exists>m a b.
               map_of (data_set (snd (refresh fetch r))) s = Some m \<and>
               map_of d1 s = Some a \<and> map_of d2 s = Some b \<and>
               map_of m = map_of a ++ map_of b))"
proof -
  obtain err ds' where loop: "refresh_loop (symbols r) d1 d2 = (err, ds')"
    by (cases "refresh_loop (symbols r) d1 d2")
  have run: "refresh fetch r =
      (err, r\<lparr>endpoints := ALL_ENDPOINTS_STR_2, data_set := ds'\<rparr>)"
    using f1 f2 loop by (simp add: refresh_def url_def Let_def params_data_set)
  have err: "err = map_option IEXSymbolError (find (\<lambda>s. map_of d1 s = None) (symbols r))"
    using refresh_loop_error [OF second] loop by simp
  have A: "(\<exists>s. err = Some (IEXSymbolError s)) \<longleftrightarrow> (\<exists>s\<in>set (symbols r). map_of d1 s = None)"
  proof (cases "find (\<lambda>s. map_of d1 s = None) (symbols r)")
    case None
    then have "\<forall>s\<in>set (symbols r). map_of d1 s \<noteq> None"
      by (simp add: find_None_iff)
    then show ?thesis unfolding err using None by simp
  next
    case (Some x)
    then have "x \<in> set (symbols r) \<and> map_of d1 x = None"
      by (auto simp: find_Some_iff)
    then show ?thesis unfolding err using Some by auto
  qed
  have B: "err = None \<longleftrightarrow> (\<forall>s\<in>set (symbols r). map_of d1 s \<noteq> None)"
    unfolding err by (auto simp: find_None_iff)
  have C: "\<exists>m a b. map_of ds' s = Some m \<and> map_of d1 s = Some a \<and> map_of d2 s = Some b \<and>
               map_of m = map_of a ++ map_of b"
    if "err = None" and s: "s \<in> set (symbols r)" for s
  proof -
    from loop that have "refresh_loop (symbols r) d1 d2 = (None, ds')" by simp
    from refresh_loop_success [OF this, rule_format, of s] s
    obtain m a b where m: "map_of ds' s = Some m" "map_of d1 s = Some a" "map_of d2 s = Some b"
      "map_of m = map_of a ++ map_of (rev b)"
      by auto
    from m(3) have "(s, b) \<in> set d2" by (rule map_of_SomeD)
    with wf have "distinct (map fst b)" by auto
    then show ?thesis using m by (auto simp: map_of_rev_distinct)
  qed
  show ?thesis using A B C by (simp add: run)
qed

theorem refresh_consolidates_witness:
  "fst (refresh
         (two_group_fetch
            [(''AAPL'', [(''quote'', PInt 1)]), (''TSLA'', [(''quote'', PInt 2)])]
            [(''AAPL'', [(''price'', PInt 3)]), (''TSLA'', [(''price'', PInt 4)])])
         (blank_reader [''AAPL'', ''TSLA''] ''batch'' ''json'')) = None
   \<and> data_set (snd (refresh
         (two_group_fetch
            [(''AAPL'', [(''quote'', PInt 1)]), (''TSLA'', [(''quote'', PInt 2)])]
            [(''AAPL'', [(''price'', PInt 3)]), (''TSLA'', [(''price'', PInt 4)])])
         (blank_reader [''AAPL'', ''TSLA''] ''batch'' ''json'')))
     = [(''AAPL'', [(''quote'', PInt 1), (''price'', PInt 3)]),
        (''TSLA'', [(''quote'', PInt 2), (''price'', PInt 4)])]"
  using refresh_consolidates
    [of "two_group_fetch
            [(''AAPL'', [(''quote'', PInt 1)]), (''TSLA'', [(''quote'', PInt 2)])]
            [(''AAPL'', [(''price'', PInt 3)]), (''TSLA'', [(''price'', PInt 4)])]"
        "blank_reader [''AAPL'', ''TSLA''] ''batch'' ''json''"
        "[(''AAPL'', [(''quote'', PInt 1)]), (''TSLA'', [(''quote'', PInt 2)])]"
        "[(''AAPL'', [(''price'', PInt 3)]), (''TSLA'', [(''price'', PInt 4)])]"]
  by (simp add: refresh_def two_group_fetch_def blank_reader_def params_def
      default_options_def url_def dict_update_def
      ALL_ENDPOINTS_STR_1_def ALL_ENDPOINTS_STR_2_def ENDPOINTS_def)

text \<open>
  C3 as stated fails: TSLA is requested and absent from the first response group, yet
  refresh stops earlier with the KeyError of looking AAPL up in the second group.
\<close>

theorem refresh_symbol_error_counterexample:
  "map_of [(''AAPL'', [(''quote'', PInt 1)])] ''TSLA'' = None
   \<and> fst (refresh (two_group_fetch [(''AAPL'', [(''quote'', PInt 1)])] [])
            (blank_reader [''AAPL'', ''TSLA''] ''batch'' ''json''))
       = Some (KeyError ''AAPL'')"
  by (simp add: refresh_def two_group_fetch_def blank_reader_def params_def
      default_options_def url_def dict_update_def
      ALL_ENDPOINTS_STR_1_def ALL_ENDPOINTS_STR_2_def ENDPOINTS_def)

subsection \<open>Construction\<close>

lemma upper_tickers: "upper ''aapl'' = ''AAPL''" "upper ''AAPL'' = ''AAPL''"
  "upper ''tsla'' = ''TSLA''" "upper ''f'' = ''F''"
  by code_simp+

lemma upper_char_idem: "upper_char (upper_char c) = upper_char c"
proof (cases "97 \<le> (of_char c :: nat) \<and> (of_char c :: nat) \<le> 122")
  case True
  then have "((of_char c :: nat) - 32) mod 256 = of_char c - 32"
    by (intro mod_less) arith
  moreover from True have "\<not> 97 \<le> (of_char c :: nat) - 32"
    by arith
  ultimately show ?thesis using True
    by (simp add: upper_char_def Let_def)
next
  case False
  then have "upper_char c = c"
    by (auto simp: upper_char_def Let_def)
  then show ?thesis by simp
qed

lemma upper_idem: "upper (upper t) = upper t"
  by (simp add: upper_def upper_char_idem)

lemma refresh_keeps:
  "symbols (snd (refresh fetch r)) = symbols r"
  "key (snd (refresh fetch r)) = key r"
  "output_format (snd (refresh fetch r)) = output_format r"
  by (simp_all add: refresh_def Let_def split: sum.splits prod.splits)

lemma StockReader_init_fields:
  assumes "StockReader_init fetch syms dp rng lst fmt = Inr r"
  shows "symbols r = map upper (elements syms)"
    and "key r = (if length (elements syms) = 1 then ''share'' else ''batch'')"
    and "output_format r = fmt"
proof -
  let ?r0 = "\<lparr>symbols = map upper (elements syms),
      key = (if length (elements syms) = 1 then ''share'' else ''batch''),
      output_format = fmt, displayPercent = dp, range_opt = rng, last_opt = lst,
      endpoints = [], data_set = []\<rparr>"
  from assms have "r = snd (refresh fetch ?r0)"
    by (auto simp: StockReader_init_def Let_def split: if_splits prod.splits option.splits)
  then show "symbols r = map upper (elements syms)"
    and "key r = (if length (elements syms) = 1 then ''share'' else ''batch'')"
    and "output_format r = fmt"
    by (simp_all add: refresh_keeps)
qed

text \<open>
  C9, as amended: the stored symbol list holds the uppercase form of every element of the
  symbols argument, in input order and one entry per element; duplicates are kept, so the
  list is free of duplicates only when the uppercased input is.
\<close>

theorem StockReader_init_symbols:
  "StockReader_init fetch syms dp rng lst fmt = Inr r \<Longrightarrow>
   length (symbols r) = length (elements syms)
   \<and> (\<forall>i<length (elements syms). symbols r ! i = upper (elements syms ! i))
   \<and> (\<forall>t\<in>set (symbols r). upper t = t)
   \<and> (distinct (symbols r) \<longleftrightarrow> distinct (map upper (elements syms)))"
  by (auto simp: StockReader_init_fields(1) upper_idem)

theorem StockReader_init_symbols_witness:
  "map_sum id symbols
     (StockReader_init
        (two_group_fetch [(''AAPL'', [(''quote'', PInt 1)]), (''TSLA'', [(''quote'', PInt 2)])]
                         [(''AAPL'', [(''price'', PInt 3)]), (''TSLA'', [(''price'', PInt 4)])])
        (SymbolList [''tsla'', ''AAPL'']) (PBool False) ''1m'' 10 ''json'')
   = Inr [''TSLA'', ''AAPL'']"
proof -
  obtain r where r: "StockReader_init
        (two_group_fetch [(''AAPL'', [(''quote'', PInt 1)]), (''TSLA'', [(''quote'', PInt 2)])]
                         [(''AAPL'', [(''price'', PInt 3)]), (''TSLA'', [(''price'', PInt 4)])])
        (SymbolList [''tsla'', ''AAPL'']) (PBool False) ''1m'' 10 ''json'' = Inr r"
    by (simp add: StockReader_init_def elements_def RANGE_VALUES_def upper_tickers
        refresh_def two_group_fetch_def params_def
        default_options_def url_def dict_update_def
        ALL_ENDPOINTS_STR_1_def ALL_ENDPOINTS_STR_2_def ENDPOINTS_def)
  from StockReader_init_symbols [OF r] have "symbols r = [''TSLA'', ''AAPL'']"
    by (auto simp: elements_def upper_tickers nth_equalityI list_eq_iff_nth_eq less_Suc_eq)
  with r show ?thesis by simp
qed

text \<open>
  C9 as stated fails: the same ticker given twice, in two letter cases, is stored twice.
\<close>

theorem StockReader_init_duplicates_counterexample:
  "map_sum id symbols
     (StockReader_init
        (two_group_fetch [(''AAPL'', [(''quote'', PInt 1)])] [(''AAPL'', [(''price'', PInt 3)])])
        (SymbolList [''aapl'', ''AAPL'']) (PBool False) ''1m'' 10 ''json'')
   = Inr [''AAPL'', ''AAPL'']
   \<and> \<not> distinct [''AAPL'', ''AAPL'']"
  by (simp add: StockReader_init_def elements_def RANGE_VALUES_def upper_tickers
        refresh_def two_group_fetch_def params_def
        default_options_def url_def dict_update_def
        ALL_ENDPOINTS_STR_1_def ALL_ENDPOINTS_STR_2_def ENDPOINTS_def)

subsection \<open>Accessors leave the instance as it is\<close>

lemma and_then_keeps:
  assumes "\<And>self. snd (m self) = self" and "\<And>v self. snd (f v self) = self"
  shows "snd (and_then m f self) = self"
proof -
  obtain w x s1 where m: "m self = ((w, x), s1)" by (metis prod.exhaust)
  with assms(1) [of self] have s1: "s1 = self" by simp
  show ?thesis
  proof (cases x)
    case (Inl e)
    with m s1 show ?thesis by (simp add: and_then_def)
  next
    case (Inr v)
    obtain w' y s2 where f: "f v self = ((w', y), s2)" by (metis prod.exhaust)
    with assms(2) [of v self] have "s2 = self" by simp
    with m s1 Inr f show ?thesis by (simp add: and_then_def)
  qed
qed

lemma prim_keeps [simp]:
  "snd (ret v self) = self" "snd (lift x self) = self"
  "snd (attr name self) = self" "snd (warn msg self) = self"
  by (simp_all add: ret_def lift_def attr_def warn_def)

lemma dict_comp_keeps:
  assumes "\<And>k self. snd (f k self) = self"
  shows "snd (dict_comp f ks acc self) = self"
proof (induction ks arbitrary: acc)
  case Nil
  show ?case by simp
next
  case (Cons k ks)
  obtain w x s1 where fk: "f k self = ((w, x), s1)" by (metis prod.exhaust)
  with assms [of k self] have s1: "s1 = self" by simp
  show ?case
  proof (cases x)
    case (Inl e)
    with fk s1 show ?thesis by simp
  next
    case (Inr v)
    obtain w' y s2 where rest: "dict_comp f ks (AList.update k v acc) self = ((w', y), s2)"
      by (metis prod.exhaust)
    with Cons.IH [of "AList.update k v acc"] have "s2 = self" by simp
    with fk s1 Inr rest show ?thesis by simp
  qed
qed

lemma format_wrapper_keeps:
  assumes "\<And>self. snd (body self) = self"
  shows "snd (format_wrapper pd override body self) = self"
  unfolding format_wrapper_def
  by (intro and_then_keeps assms)
     (auto intro!: and_then_keeps split: option.splits list.splits)

lemma endpoint_func_keeps: "snd (endpoint_func name self) = self"
  unfolding endpoint_func_def
  by (intro and_then_keeps dict_comp_keeps prim_keeps)

lemma getter_keeps:
  "snd (get_quote pd self) = self" "snd (get_key_stats pd self) = self"
  "snd (get_ohlc pd self) = self" "snd (get_chart pd self) = self"
  by (simp_all add: get_quote_def get_key_stats_def get_ohlc_def get_chart_def
      format_wrapper_keeps endpoint_func_keeps)

lemma field_func_keeps:
  assumes "\<And>self. snd (getter pd self) = self"
  shows "snd (field_func pd getter field self) = self"
  unfolding field_func_def
  by (intro and_then_keeps dict_comp_keeps prim_keeps)
     (auto intro!: and_then_keeps assms)

lemma get_select_endpoints_func_keeps: "snd (get_select_endpoints_func arg self) = self"
  unfolding get_select_endpoints_func_def
  by (auto intro!: and_then_keeps split: endpoints_arg.splits list.splits)

lemma func_keeps: "snd (func pd a self) = self"
  by (cases a)
     (simp_all add: endpoint_func_keeps getter_keeps field_func_keeps
        get_select_endpoints_func_keeps and_then_keeps)

text \<open>
  C10: a call of any accessor leaves the instance, and with it the consolidated data set,
  as it was, and a second call on the instance returns the same value or raises the same
  exception as the first.
\<close>

theorem call_pure:
  "snd (call pd a r) = r
   \<and> data_set (snd (call pd a r)) = data_set r
   \<and> snd (fst (call pd a (snd (call pd a r)))) = snd (fst (call pd a r))"
proof -
  have "snd (call pd a r) = r"
    by (cases "decorator a") (simp_all add: call_def func_keeps format_wrapper_keeps)
  then show ?thesis by simp
qed

subsection \<open>The selector loops\<close>

lemma select_endpoint_loop_no_symbol_error:
  "select_endpoint_loop eps ds temp \<noteq> Inl (IEXSymbolError s)"
  by (induction eps ds temp rule: select_endpoint_loop.induct)
     (auto split: option.splits)

lemma select_symbol_loop_no_symbol_error:
  "select_symbol_loop syms data eps ds result \<noteq> Inl (IEXSymbolError s)"
proof (induction syms arbitrary: ds result)
  case Nil
  show ?case by simp
next
  case (Cons x xs)
  show ?case
    using Cons.IH select_endpoint_loop_no_symbol_error
    by (auto simp: Let_def split: sum.splits)
qed

lemma get_select_endpoints_func_outcome:
  "\<exists>x. get_select_endpoints_func arg r = (([], x), r) \<and> x \<noteq> Inl (IEXSymbolError s) \<and>
        (\<forall>v. x = Inr v \<longrightarrow> (\<exists>d. v = PDict d))"
  using select_symbol_loop_no_symbol_error
  by (auto simp: get_select_endpoints_func_def lift_def and_then_def attr_def
      split: endpoints_arg.splits list.splits sum.splits)

text \<open>
  C4: the claim asks for the symbol-not-found error when a symbol of the instance is
  missing from the data set. The selector never raises it: with the missing symbol first
  the unbound local variable is read, with the missing symbol later the entries of the
  symbol before it are returned under its name.
\<close>

theorem get_select_endpoints_missing_symbol:
  "fst (call plain_pandas (Get_select_endpoints (EndpointStr ''quote''))
         ((blank_reader [''TSLA'', ''AAPL''] ''batch'' ''json'')
            \<lparr>data_set := [(''AAPL'', [(''quote'', PInt 1)])]\<rparr>))
     = ([], Inl (UnboundLocalError ''ds''))
   \<and> fst (call plain_pandas (Get_select_endpoints (EndpointStr ''quote''))
         ((blank_reader [''AAPL'', ''TSLA''] ''batch'' ''json'')
            \<lparr>data_set := [(''AAPL'', [(''quote'', PInt 1)])]\<rparr>))
     = ([], Inr (PDict [(''AAPL'', PDict [(''quote'', PInt 1)]),
                        (''TSLA'', PDict [(''quote'', PInt 1)])]))
   \<and> snd (fst (call pd (Get_select_endpoints arg) r)) \<noteq> Inl (IEXSymbolError s)"
proof -
  from get_select_endpoints_func_outcome [of arg r s] obtain x where
    x: "get_select_endpoints_func arg r = (([], x), r)" "x \<noteq> Inl (IEXSymbolError s)"
       "\<forall>v. x = Inr v \<longrightarrow> (\<exists>d. v = PDict d)"
    by blast
  have "snd (fst (call pd (Get_select_endpoints arg) r)) \<noteq> Inl (IEXSymbolError s)"
  proof (cases x)
    case (Inl e)
    with x show ?thesis
      by (simp add: call_def decorator_def format_wrapper_def and_then_def)
  next
    case (Inr v)
    with x obtain d where "v = PDict d" by blast
    with x Inr show ?thesis
      by (auto simp: call_def decorator_def format_wrapper_def and_then_def lift_def ret_def
          attr_def warn_def subscript_def getitem_def split: list.splits option.splits)
  qed
  then show ?thesis
    by (simp add: call_def decorator_def format_wrapper_def and_then_def lift_def ret_def
        attr_def warn_def get_select_endpoints_func_def blank_reader_def plain_pandas_def
        subscript_def getitem_def)
qed

text \<open>
  C1: in tabular mode, a method decorated with an override warns and then returns None,
  whatever its body computed; the structured mode returns the body's data.
\<close>

theorem override_tabular_mode:
  "output_format r = ''pandas'' \<Longrightarrow> decorator a = Some (Some fmt) \<Longrightarrow>
   fst (call pd a r) = (w, Inr v) \<Longrightarrow>
   v = PNone \<and> w \<noteq> [] \<and> last w = pandas_warning"
proof -
  assume fmt: "output_format r = ''pandas''" and dec: "decorator a = Some (Some fmt)"
    and c: "fst (call pd a r) = (w, Inr v)"
  obtain w0 x s1 where f: "func pd a r = ((w0, x), s1)" by (metis prod.exhaust)
  with func_keeps [of pd a r] have s1: "s1 = r" by simp
  from c dec f s1 fmt show ?thesis
    by (cases x)
       (auto simp: call_def format_wrapper_def and_then_def attr_def warn_def ret_def)
qed

theorem override_tabular_mode_witness:
  "fst (call plain_pandas Get_price
         ((blank_reader [''AAPL''] ''share'' ''pandas'')
            \<lparr>data_set := [(''AAPL'', [(''price'', PFloat 150.5)])]\<rparr>))
     = ([pandas_warning], Inr PNone)
   \<and> fst (call plain_pandas Get_price
         ((blank_reader [''AAPL''] ''share'' ''json'')
            \<lparr>data_set := [(''AAPL'', [(''price'', PFloat 150.5)])]\<rparr>))
     = ([], Inr (PFloat 150.5))"
  using override_tabular_mode
    [of "(blank_reader [''AAPL''] ''share'' ''pandas'')
            \<lparr>data_set := [(''AAPL'', [(''price'', PFloat 150.5)])]\<rparr>"
        Get_price "''json''" plain_pandas "[pandas_warning]" PNone]
  by (simp add: call_def decorator_def format_wrapper_def and_then_def lift_def ret_def
      attr_def warn_def endpoint_func_def blank_reader_def plain_pandas_def getitem_def
      subscript_def)

subsection \<open>What accessors return in structured mode\<close>






















end
